theory Spec2Isabelle
  imports Complex_Main "HOL-Library.AList" "HOL-Library.Option_ord"
begin

section \<open>Values, errors and frames\<close>

text \<open>
  A cell of a numeric column is a number or the missing marker (NaN), written
  \<open>None\<close>. Arithmetic is that of the real numbers: the rounding of the
  machine's floating point is outside this model. A timestamp is a number of
  minutes since the epoch; its calendar day is the quotient by 1440, as the
  daily bins of \<open>resample('D')\<close> are anchored at midnight.
\<close>

type_synonym cell = "real option"

datatype py_error = ValueError | KeyError

definition day_of :: "int \<Rightarrow> int" where
  "day_of t = t div 1440"

fun observed :: "cell list \<Rightarrow> real list" where
  "observed [] = []"
| "observed (None # vs) = observed vs"
| "observed (Some x # vs) = x # observed vs"

section \<open>app.py: the lag correlation\<close>

text \<open>
  The frame read by \<open>carregar_dados\<close>: one row per line of the consolidated
  file, indexed by \<open>Data\<close> (a calendar day), with the columns \<open>Nivel_m\<close> and
  \<open>Precipitacao_mm\<close>.
\<close>

record row =
  Data :: int
  Nivel_m :: cell
  Precipitacao_mm :: cell

type_synonym dataframe = "row list"

text \<open>\<open>Series.shift(1)\<close>: every value moves one row down, the first row is missing.\<close>

definition shift1 :: "cell list \<Rightarrow> cell list" where
  "shift1 xs = (if xs = [] then [] else None # butlast xs)"

text \<open>
  \<open>Series.rolling(window=w).sum()\<close>: at row \<open>i\<close> the window holds the rows
  \<open>i - w + 1 .. i\<close> that exist; the result is the sum of the window's
  observed values when there are at least \<open>min_periods = w\<close> of them, and
  missing otherwise.
\<close>

definition janela :: "nat \<Rightarrow> cell list \<Rightarrow> nat \<Rightarrow> cell list" where
  "janela w xs i = drop (Suc i - w) (take (Suc i) xs)"

definition rolling_sum :: "nat \<Rightarrow> cell list \<Rightarrow> cell list" where
  "rolling_sum w xs =
     map (\<lambda>i. let obs = observed (janela w xs i)
               in if w \<le> length obs then Some (sum_list obs) else None)
         [0..<length xs]"

definition chuva_acumulada :: "nat \<Rightarrow> dataframe \<Rightarrow> cell list" where
  "chuva_acumulada lag df = rolling_sum lag (shift1 (map Precipitacao_mm df))"

text \<open>
  \<open>Series.corr\<close> is a method of the library; the analyser is defined for
  any function \<open>corr\<close> from two columns to a coefficient or NaN. The Pearson
  coefficient over the reals is the instance used to run the analyser: the
  rows where both columns are observed are kept, and the coefficient is
  undefined when the variance of either column is zero (which covers zero and
  one kept rows).
\<close>

fun pares :: "cell list \<Rightarrow> cell list \<Rightarrow> (real \<times> real) list" where
  "pares (Some x # xs) (Some y # ys) = (x, y) # pares xs ys"
| "pares (_ # xs) (_ # ys) = pares xs ys"
| "pares _ _ = []"

definition media :: "real list \<Rightarrow> real" where
  "media xs = sum_list xs / real (length xs)"

definition pearson :: "cell list \<Rightarrow> cell list \<Rightarrow> cell" where
  "pearson a b =
     (let ps = pares a b; xs = map fst ps; ys = map snd ps;
          mx = media xs; my = media ys;
          sxy = sum_list (map (\<lambda>(x, y). (x - mx) * (y - my)) ps);
          sxx = sum_list (map (\<lambda>x. (x - mx) * (x - mx)) xs);
          syy = sum_list (map (\<lambda>y. (y - my) * (y - my)) ys)
      in if ps = [] \<or> sxx = 0 \<or> syy = 0 then None
         else Some (max (- 1) (min 1 (sxy / (sqrt sxx * sqrt syy)))))"

text \<open>
  The loop \<open>for lag in range(1, max_lag + 1)\<close>: the dictionary \<open>correlacoes\<close>
  is an association list in insertion order, and \<open>correlacoes[lag] = corr\<close>
  replaces the entry of an existing key or appends a new one.
\<close>

fun correlacoes_loop ::
  "(cell list \<Rightarrow> cell list \<Rightarrow> cell) \<Rightarrow> dataframe \<Rightarrow> (int \<times> real) list \<Rightarrow> int list
     \<Rightarrow> (int \<times> real) list" where
  "correlacoes_loop corr df correlacoes [] = correlacoes"
| "correlacoes_loop corr df correlacoes (lag # lags) =
     correlacoes_loop corr df
       (case corr (map Nivel_m df) (chuva_acumulada (nat lag) df) of
          None \<Rightarrow> correlacoes
        | Some c \<Rightarrow> AList.update lag c correlacoes)
       lags"

text \<open>
  \<open>max(iterable, key=f)\<close>: the first item is the running best, and a later
  item replaces it only when its key is strictly greater. On an empty
  iterable Python raises ValueError.
\<close>

fun max_from :: "('a \<Rightarrow> 'b::linorder) \<Rightarrow> 'a \<Rightarrow> 'a list \<Rightarrow> 'a" where
  "max_from f best [] = best"
| "max_from f best (x # xs) = max_from f (if f best < f x then x else best) xs"

definition py_max :: "('a \<Rightarrow> 'b::linorder) \<Rightarrow> 'a list \<Rightarrow> py_error + 'a" where
  "py_max f xs = (case xs of [] \<Rightarrow> Inl ValueError | x # rest \<Rightarrow> Inr (max_from f x rest))"

text \<open>
  The result \<open>Inr None\<close> is the triple \<open>(None, None, None)\<close> of the source;
  \<open>correlacoes.get\<close> is the lookup in the association list, and
  \<open>correlacoes[melhor_lag]\<close> raises KeyError on a missing key.
\<close>

definition calcular_correlacao_com_lag ::
  "(cell list \<Rightarrow> cell list \<Rightarrow> cell) \<Rightarrow> dataframe \<Rightarrow> int
     \<Rightarrow> py_error + (int \<times> real \<times> (int \<times> real) list) option" where
  "calcular_correlacao_com_lag corr df max_lag =
     (let correlacoes = correlacoes_loop corr df [] [1..max_lag]
      in if correlacoes = [] then Inr None
         else case py_max (map_of correlacoes) (map fst correlacoes) of
                Inl e \<Rightarrow> Inl e
              | Inr melhor_lag \<Rightarrow>
                  (case map_of correlacoes melhor_lag of
                     None \<Rightarrow> Inl KeyError
                   | Some melhor_corr \<Rightarrow> Inr (Some (melhor_lag, melhor_corr, correlacoes))))"


text \<open>
  The coefficient of one lag, and the dictionary's entries in closed form: the
  lags in order, each with its coefficient when that is defined.
\<close>

abbreviation coeficiente :: "(cell list \<Rightarrow> cell list \<Rightarrow> cell) \<Rightarrow> dataframe \<Rightarrow> int \<Rightarrow> cell" where
  "coeficiente corr df lag \<equiv> corr (map Nivel_m df) (chuva_acumulada (nat lag) df)"

definition entradas ::
  "(cell list \<Rightarrow> cell list \<Rightarrow> cell) \<Rightarrow> dataframe \<Rightarrow> int list \<Rightarrow> (int \<times> real) list" where
  "entradas corr df lags =
     concat (map (\<lambda>k. case coeficiente corr df k of None \<Rightarrow> [] | Some c \<Rightarrow> [(k, c)]) lags)"

section \<open>1\_processamento\_dados.py: parsing, daily aggregation and join\<close>

text \<open>
  \<open>str.replace(old, new)\<close> without regular expressions: the occurrences of
  \<open>old\<close> are replaced from left to right, without overlap; an empty \<open>old\<close>
  matches before every character and at the end.
\<close>

fun replace_ne :: "string \<Rightarrow> string \<Rightarrow> string \<Rightarrow> string" where
  "replace_ne old new [] = []"
| "replace_ne old new (c # cs) =
     (if old \<noteq> [] \<and> take (length old) (c # cs) = old
      then new @ replace_ne old new (drop (length old) (c # cs))
      else c # replace_ne old new cs)"

definition str_replace :: "string \<Rightarrow> string \<Rightarrow> string \<Rightarrow> string" where
  "str_replace old new s =
     (if old = [] then new @ concat (map (\<lambda>c. c # new) s) else replace_ne old new s)"

text \<open>
  The recognisers of the library are parameters of the model: \<open>to_float\<close>
  reads a number from a text or fails; \<open>strptime\<close> reads a text in the
  format given to \<open>pd.to_datetime\<close> and gives an instant, or the null
  instant NaT for the texts the library takes as null, or fails. An instant
  is a timestamp or NaT, written \<open>None\<close>. \<open>pd.to_numeric\<close> with
  \<open>errors='coerce'\<close> turns a failure into NaN and leaves a missing cell
  missing; \<open>pd.to_datetime\<close> with its default \<open>errors='raise'\<close> gives
  NaT for a missing cell and raises ValueError at the first text that does not
  parse.
\<close>

type_synonym instante = "int option"

definition to_numeric_coerce :: "(string \<Rightarrow> real option) \<Rightarrow> string option \<Rightarrow> cell" where
  "to_numeric_coerce to_float c = (case c of None \<Rightarrow> None | Some s \<Rightarrow> to_float s)"

definition instante_da_celula ::
  "(string \<Rightarrow> instante option) \<Rightarrow> string option \<Rightarrow> instante option" where
  "instante_da_celula strptime c = (case c of None \<Rightarrow> Some None | Some s \<Rightarrow> strptime s)"

fun to_datetime ::
  "(string \<Rightarrow> instante option) \<Rightarrow> string option list \<Rightarrow> py_error + instante list" where
  "to_datetime strptime [] = Inr []"
| "to_datetime strptime (c # cs) =
     (case instante_da_celula strptime c of
        None \<Rightarrow> Inl ValueError
      | Some t \<Rightarrow> (case to_datetime strptime cs of Inl e \<Rightarrow> Inl e | Inr ts \<Rightarrow> Inr (t # ts)))"

record leitura_rio =
  Timestamp :: "string option"
  Medicao_str :: "string option"

definition limpar_medicao :: "string \<Rightarrow> string" where
  "limpar_medicao s = str_replace '','' ''.'' (str_replace '' m'' [] s)"

text \<open>
  The frame \<open>df_rio\<close> after lines 34 to 41: the column \<open>Nivel_m\<close> indexed by
  the parsed instants. The value column is taken to be read from the file as
  text, as it is whenever one of its cells is not a plain number (a unit, a
  decimal comma, a text that fails the coercion); on a column of plain numbers
  the string methods of line 34 are not available, and that case is outside
  this definition.
\<close>

definition df_rio ::
  "(string \<Rightarrow> real option) \<Rightarrow> (string \<Rightarrow> instante option) \<Rightarrow> leitura_rio list
     \<Rightarrow> py_error + (instante \<times> cell) list" where
  "df_rio to_float strptime linhas =
     (let nivel = map (\<lambda>r. to_numeric_coerce to_float (map_option limpar_medicao (Medicao_str r)))
                      linhas
      in case to_datetime strptime (map Timestamp linhas) of
           Inl e \<Rightarrow> Inl e
         | Inr ts \<Rightarrow> Inr (zip ts nivel))"

text \<open>
  \<open>Series.resample('D')\<close> makes one bin for every calendar day from the day
  of the earliest timestamp to the day of the latest one, and the aggregation
  is applied to the cells of each bin, also to an empty bin. \<open>sum\<close> adds
  the observed cells (an empty sum is 0); \<open>mean\<close> divides that sum by the
  number of observed cells and is NaN when there is none.
\<close>

definition do_dia :: "(int \<times> cell) list \<Rightarrow> int \<Rightarrow> cell list" where
  "do_dia obs dia = map snd (filter (\<lambda>(t, v). day_of t = dia) obs)"

definition resample_D :: "(cell list \<Rightarrow> cell) \<Rightarrow> (int \<times> cell) list \<Rightarrow> (int \<times> cell) list" where
  "resample_D agg obs =
     (case map (\<lambda>(t, v). day_of t) obs of
        [] \<Rightarrow> []
      | d # ds \<Rightarrow> map (\<lambda>dia. (dia, agg (do_dia obs dia))) [fold min ds d .. fold max ds d])"

definition soma :: "cell list \<Rightarrow> cell" where
  "soma vs = Some (sum_list (observed vs))"

definition mean :: "cell list \<Rightarrow> cell" where
  "mean vs = (let xs = observed vs
              in if xs = [] then None else Some (sum_list xs / real (length xs)))"

definition dropna :: "(int \<times> cell) list \<Rightarrow> (int \<times> cell) list" where
  "dropna serie = filter (\<lambda>(d, v). v \<noteq> None) serie"

definition df_rio_diario :: "(int \<times> cell) list \<Rightarrow> (int \<times> cell) list" where
  "df_rio_diario obs = dropna (resample_D mean obs)"

definition df_clima_diario :: "(int \<times> cell) list \<Rightarrow> (int \<times> cell) list" where
  "df_clima_diario obs = resample_D soma obs"

text \<open>The observed values of one calendar day.\<close>

definition valores_do_dia :: "(int \<times> cell) list \<Rightarrow> int \<Rightarrow> real list" where
  "valores_do_dia obs dia = observed (do_dia obs dia)"

text \<open>
  \<open>df_rio_diario.join(df_clima_diario)\<close> is a left join on the index: every
  row of the left frame, in order, with each row of the right frame that has
  its date, or with a missing cell when there is none.

  Line 118 calls \<open>fillna(0, inplace=True)\<close> on the column selected from the
  frame, \<open>df_final['Precipitacao_mm']\<close>. Without Copy-on-Write (pandas
  before 3) the selected column shares the data of the frame, and the missing
  precipitation of the frame is filled with 0; with Copy-on-Write (pandas 3)
  the selected column is a temporary object of its own, the fill changes only
  that object and the frame is left as it was. The source pins no version of
  the library, so the mode is the parameter \<open>copy_on_write\<close>. Line 121
  then drops the rows that have a missing cell.
\<close>

definition join :: "(int \<times> cell) list \<Rightarrow> (int \<times> cell) list \<Rightarrow> dataframe" where
  "join esq dir =
     concat (map (\<lambda>(d, n).
        case filter (\<lambda>(d', p). d' = d) dir of
          [] \<Rightarrow> [\<lparr>Data = d, Nivel_m = n, Precipitacao_mm = None\<rparr>]
        | ms \<Rightarrow> map (\<lambda>(d', p). \<lparr>Data = d, Nivel_m = n, Precipitacao_mm = p\<rparr>) ms) esq)"

definition fillna0 :: "cell \<Rightarrow> cell" where
  "fillna0 c = (case c of None \<Rightarrow> Some 0 | Some x \<Rightarrow> Some x)"

definition fillna0_encadeado :: "bool \<Rightarrow> dataframe \<Rightarrow> dataframe" where
  "fillna0_encadeado copy_on_write df =
     (if copy_on_write then df
      else map (\<lambda>r. r\<lparr>Precipitacao_mm := fillna0 (Precipitacao_mm r)\<rparr>) df)"

definition df_final :: "bool \<Rightarrow> (int \<times> cell) list \<Rightarrow> (int \<times> cell) list \<Rightarrow> dataframe" where
  "df_final copy_on_write rio_diario clima_diario =
     filter (\<lambda>r. Nivel_m r \<noteq> None \<and> Precipitacao_mm r \<noteq> None)
       (fillna0_encadeado copy_on_write (join rio_diario clima_diario))"

section \<open>process\_data.py: the columns of processar\_dados\<close>

text \<open>
  Line 94 coerces the rainfall text and fills what failed with 0; line 105
  coerces the level text and leaves NaN; line 103 converts the column of the
  level timestamps with the same \<open>pd.to_datetime\<close>, a format and the
  default \<open>errors='raise'\<close>; line 116 sums the merged precipitation column
  by day.
\<close>

definition precipitacao_mm :: "(string \<Rightarrow> real option) \<Rightarrow> string option \<Rightarrow> cell" where
  "precipitacao_mm to_float chuva = fillna0 (to_numeric_coerce to_float chuva)"

definition nivel_cm :: "(string \<Rightarrow> real option) \<Rightarrow> string option \<Rightarrow> cell" where
  "nivel_cm to_float nivel_1 = to_numeric_coerce to_float nivel_1"

definition df_diario_precipitacao :: "(int \<times> cell) list \<Rightarrow> (int \<times> cell) list" where
  "df_diario_precipitacao df_combinado = resample_D soma df_combinado"

section \<open>Concrete inputs\<close>

text \<open>
  Frames on which the analyser is run below. In \<open>df_empate\<close> every lag has
  coefficient 1; in \<open>df_exemplo\<close> the lags 1 and 3 have coefficient -1, lag
  2 has coefficient 1 and lag 4 has a single pair, hence no coefficient; in
  \<open>df_lacuna\<close> the days 3 and 4 have no row, as after the removal of the
  days without a river reading.
\<close>

definition df_empate :: dataframe where
  "df_empate = [\<lparr>Data = 1, Nivel_m = Some 1, Precipitacao_mm = Some 1\<rparr>,
                \<lparr>Data = 2, Nivel_m = Some 2, Precipitacao_mm = Some 2\<rparr>,
                \<lparr>Data = 3, Nivel_m = Some 3, Precipitacao_mm = Some 3\<rparr>,
                \<lparr>Data = 4, Nivel_m = Some 4, Precipitacao_mm = Some 4\<rparr>,
                \<lparr>Data = 5, Nivel_m = Some 5, Precipitacao_mm = Some 5\<rparr>]"

definition df_exemplo :: dataframe where
  "df_exemplo = [\<lparr>Data = 1, Nivel_m = Some 10, Precipitacao_mm = Some 0\<rparr>,
                 \<lparr>Data = 2, Nivel_m = Some 20, Precipitacao_mm = Some 12\<rparr>,
                 \<lparr>Data = 3, Nivel_m = Some 8, Precipitacao_mm = Some 6\<rparr>,
                 \<lparr>Data = 4, Nivel_m = Some 14, Precipitacao_mm = Some 9\<rparr>,
                 \<lparr>Data = 5, Nivel_m = Some 11, Precipitacao_mm = Some 3\<rparr>]"

definition df_lacuna :: dataframe where
  "df_lacuna = [\<lparr>Data = 1, Nivel_m = Some 1, Precipitacao_mm = Some 1\<rparr>,
                \<lparr>Data = 2, Nivel_m = Some 2, Precipitacao_mm = Some 2\<rparr>,
                \<lparr>Data = 5, Nivel_m = Some 3, Precipitacao_mm = Some 4\<rparr>]"

text \<open>
  Finite fragments of the library's recognisers, enough to run the parsers:
  the texts listed are read as the library reads them, every other text
  fails. The timestamps are minutes since 1970-01-01 00:00, and the text
  \<open>NaT\<close> is one of those the library takes as the null instant.
\<close>

definition to_float_tab :: "string \<Rightarrow> real option" where
  "to_float_tab = map_of [(''1.20'', 12 / 10), (''1.35'', 135 / 100), (''0.4'', 4 / 10)]"

definition strptime_tab :: "string \<Rightarrow> instante option" where
  "strptime_tab = map_of [(''01/05/2024 00:00'', Some 28575360),
                          (''01/05/2024 12:15'', Some 28576095),
                          (''01/05/2024 12:30'', Some 28576110),
                          (''03/05/2024 06:30'', Some 28578630), (''NaT'', None)]"

text \<open>
  Readings of the river file: two readings and a text that is not a number on
  2024-05-01, none on 2024-05-02, one on 2024-05-03; readings with a
  timestamp that does not parse in the second row (February has no day 31);
  and a timestamp column with a missing cell and a null text. \<open>quadro_rio\<close>
  is the parsed frame of the first readings.
\<close>

definition linhas_rio :: "leitura_rio list" where
  "linhas_rio =
     [\<lparr>Timestamp = Some ''01/05/2024 00:00'', Medicao_str = Some ''1,20 m''\<rparr>,
      \<lparr>Timestamp = Some ''01/05/2024 12:15'', Medicao_str = Some ''n/d''\<rparr>,
      \<lparr>Timestamp = Some ''01/05/2024 12:30'', Medicao_str = Some ''1,35 m''\<rparr>,
      \<lparr>Timestamp = Some ''03/05/2024 06:30'', Medicao_str = Some ''0,4 m''\<rparr>]"



definition obs_rio :: "(int \<times> cell) list" where
  "obs_rio = [(28575360, Some (12 / 10)), (28576095, None), (28576110, Some (135 / 100)),
              (28578630, Some (4 / 10))]"

definition quadro_rio :: "(instante \<times> cell) list" where
  "quadro_rio = [(Some 28575360, Some (12 / 10)), (Some 28576095, None),
                 (Some 28576110, Some (135 / 100)), (Some 28578630, Some (4 / 10))]"

definition obs_clima :: "(int \<times> cell) list" where
  "obs_clima = [(28575360, Some 5), (28576095, Some 3), (28578630, Some 2)]"


text \<open>
  Daily series for the join: the river series has a missing level on day 2,
  and the rainfall series has no row for day 3.
\<close>

definition rio_diario_ex :: "(int \<times> cell) list" where
  "rio_diario_ex = [(1, Some 2), (2, None), (3, Some (5 / 2))]"

definition clima_diario_ex :: "(int \<times> cell) list" where
  "clima_diario_ex = [(1, Some 4), (2, Some 1)]"

section \<open>The analyser: the dictionary and the best lag\<close>

lemma update_fresh: "k \<notin> fst ` set m \<Longrightarrow> AList.update k v m = m @ [(k, v)]"
  by (induction m) auto

lemma entradas_keys: "fst ` set (entradas corr df lags) \<subseteq> set lags"
  by (auto simp: entradas_def split: option.splits)

lemma entradas_mem:
  "(k, c) \<in> set (entradas corr df lags) \<longleftrightarrow> k \<in> set lags \<and> coeficiente corr df k = Some c"
  by (auto simp: entradas_def split: option.splits)

lemma loop_entradas:
  "distinct lags \<Longrightarrow> fst ` set m \<inter> set lags = {} \<Longrightarrow>
   correlacoes_loop corr df m lags = m @ entradas corr df lags"
proof (induction lags arbitrary: m)
  case Nil
  then show ?case by (simp add: entradas_def)
next
  case (Cons k ks)
  show ?case
  proof (cases "coeficiente corr df k")
    case None
    with Cons show ?thesis by (simp add: entradas_def)
  next
    case (Some c)
    from Cons.prems have fresh: "k \<notin> fst ` set m" by auto
    have "fst ` set (m @ [(k, c)]) \<inter> set ks = {}"
      using Cons.prems by auto
    with Cons.IH[of "m @ [(k, c)]"] Cons.prems Some fresh show ?thesis
      by (simp add: entradas_def update_fresh)
  qed
qed

lemma loop_lags: "correlacoes_loop corr df [] [1..max_lag] = entradas corr df [1..max_lag]"
  using loop_entradas[of "[1..max_lag]" "[]" corr df] by simp

lemma entradas_sorted:
  "sorted lags \<Longrightarrow> distinct lags \<Longrightarrow>
   sorted (map fst (entradas corr df lags)) \<and> distinct (map fst (entradas corr df lags))"
proof (induction lags)
  case Nil
  then show ?case by (simp add: entradas_def)
next
  case (Cons k ks)
  have e: "entradas corr df (k # ks) =
      (case coeficiente corr df k of None \<Rightarrow> [] | Some c \<Rightarrow> [(k, c)]) @ entradas corr df ks"
    by (simp add: entradas_def)
  from Cons have ih: "sorted (map fst (entradas corr df ks))"
    "distinct (map fst (entradas corr df ks))" by auto
  have sub: "fst ` set (entradas corr df ks) \<subseteq> set ks" by (rule entradas_keys)
  show ?case using ih sub Cons.prems unfolding e
    by (auto split: option.splits)
qed

text \<open>
  On an ascending list, \<open>max\<close> with a key returns an item of the list whose
  key is the greatest, and the least item among those with that key.
\<close>

lemma max_from_props:
  fixes f :: "'a::linorder \<Rightarrow> 'b::linorder"
  shows "sorted (b # xs) \<Longrightarrow>
    max_from f b xs \<in> set (b # xs) \<and>
    (\<forall>x\<in>set (b # xs). f x \<le> f (max_from f b xs)) \<and>
    (\<forall>x\<in>set (b # xs). f x = f (max_from f b xs) \<longrightarrow> max_from f b xs \<le> x)"
proof (induction xs arbitrary: b)
  case Nil
  then show ?case by simp
next
  case (Cons x xs)
  let ?b = "if f b < f x then x else b"
  let ?r = "max_from f ?b xs"
  have s: "sorted (?b # xs)" using Cons.prems by auto
  from Cons.IH[OF s] have ih: "?r \<in> set (?b # xs)" "\<forall>y\<in>set (?b # xs). f y \<le> f ?r"
    "\<forall>y\<in>set (?b # xs). f y = f ?r \<longrightarrow> ?r \<le> y" by blast+
  have r: "max_from f b (x # xs) = ?r" by simp
  have bx: "b \<le> x" using Cons.prems by simp
  show ?case
  proof (cases "f b < f x")
    case True
    then have "f b < f ?r" using ih(2) by (auto simp: less_le_trans)
    with True ih show ?thesis unfolding r by auto
  next
    case False
    then have fx: "f x \<le> f b" by simp
    have fb: "f b \<le> f ?r" using ih(2) False by simp
    have "f x = f ?r \<longrightarrow> ?r \<le> x"
    proof
      assume "f x = f ?r"
      with fx fb have "f b = f ?r" by simp
      with ih(3) False have "?r \<le> b" by simp
      with bx show "?r \<le> x" by simp
    qed
    with False ih fx fb show ?thesis unfolding r by auto
  qed
qed

text \<open>
  The analyser never raises: it returns \<open>(None, None, None)\<close> when the
  dictionary is empty, and otherwise the dictionary with its first greatest
  entry.
\<close>

lemma calcular_cases:
  fixes corr df max_lag
  defines "m \<equiv> entradas corr df [1..max_lag]"
  shows "(m = [] \<and> calcular_correlacao_com_lag corr df max_lag = Inr None) \<or>
         (\<exists>bl bc. calcular_correlacao_com_lag corr df max_lag = Inr (Some (bl, bc, m)) \<and>
            map_of m bl = Some bc \<and>
            (\<forall>(k, c)\<in>set m. c \<le> bc \<and> (c = bc \<longrightarrow> bl \<le> k)))"
proof (cases "m = []")
  case True
  then show ?thesis
    by (simp add: calcular_correlacao_com_lag_def loop_lags m_def)
next
  case False
  then obtain k0 ks where keys: "map fst m = k0 # ks"
    by (cases m) auto
  have sd: "sorted (map fst m)" "distinct (map fst m)"
    using entradas_sorted[of "[1..max_lag]" corr df] by (simp_all add: m_def)
  define bl where "bl = max_from (map_of m) k0 ks"
  have s: "sorted (k0 # ks)" using sd keys by simp
  note P = max_from_props[OF s, of "map_of m", folded bl_def]
  from P have blin: "bl \<in> set (map fst m)" using keys by simp
  then obtain bc where bc: "map_of m bl = Some bc"
    by (cases "map_of m bl") (auto simp: map_of_eq_None_iff)
  have best: "\<forall>(k, c)\<in>set m. c \<le> bc \<and> (c = bc \<longrightarrow> bl \<le> k)"
  proof (clarify)
    fix k c assume kc: "(k, c) \<in> set m"
    then have mk: "map_of m k = Some c" using sd(2) by simp
    from kc have kin: "k \<in> set (k0 # ks)" using keys[symmetric] by force
    from P kin have "map_of m k \<le> map_of m bl" by blast
    then have le: "c \<le> bc" using mk bc by simp
    from P kin have "map_of m k = map_of m bl \<longrightarrow> bl \<le> k" by blast
    then have "c = bc \<longrightarrow> bl \<le> k" using mk bc by simp
    with le show "c \<le> bc \<and> (c = bc \<longrightarrow> bl \<le> k)" by simp
  qed
  have "calcular_correlacao_com_lag corr df max_lag = Inr (Some (bl, bc, m))"
    using False keys bc
    by (simp add: calcular_correlacao_com_lag_def loop_lags m_def[symmetric] py_max_def bl_def)
  with bc best show ?thesis by blast
qed

subsection \<open>Running the analyser\<close>

lemma upt5: "[0..<5] = [0, 1, 2, 3, 4]"
  by (simp add: upt_rec)

lemma upt3: "[0..<3] = [0, 1, 2]"
  by (simp add: upt_rec)

lemma sqrt_prod:
  "0 \<le> a \<Longrightarrow> 0 \<le> b \<Longrightarrow> a * b = c * c \<Longrightarrow> 0 \<le> c \<Longrightarrow> sqrt a * sqrt b = (c::real)"
  by (metis real_sqrt_mult real_sqrt_mult_self abs_of_nonneg)

lemmas acc_defs = chuva_acumulada_def shift1_def rolling_sum_def janela_def

lemma empate_acc:
  "chuva_acumulada (nat 1) df_empate = [None, Some 1, Some 2, Some 3, Some 4]"
  "chuva_acumulada (nat 2) df_empate = [None, None, Some 3, Some 5, Some 7]"
  "chuva_acumulada (nat 3) df_empate = [None, None, None, Some 6, Some 9]"
  by (simp_all add: acc_defs df_empate_def upt5 eval_nat_numeral)

lemma empate_corr:
  "pearson (map Nivel_m df_empate) [None, Some 1, Some 2, Some 3, Some 4] = Some 1"
  "pearson (map Nivel_m df_empate) [None, None, Some 3, Some 5, Some 7] = Some 1"
  "pearson (map Nivel_m df_empate) [None, None, None, Some 6, Some 9] = Some 1"
  using sqrt_prod[of 2 8 4] sqrt_prod[of "1/2" "9/2" "3/2"]
  by (simp_all add: pearson_def df_empate_def media_def)

lemma empate_calcular:
  "calcular_correlacao_com_lag pearson df_empate 3 = Inr (Some (1, 1, [(1, 1), (2, 1), (3, 1)]))"
  using empate_acc empate_corr
  by (simp add: calcular_correlacao_com_lag_def upto.simps py_max_def)

lemma exemplo_acc:
  "chuva_acumulada (nat 1) df_exemplo = [None, Some 0, Some 12, Some 6, Some 9]"
  "chuva_acumulada (nat 2) df_exemplo = [None, None, Some 12, Some 18, Some 15]"
  "chuva_acumulada (nat 3) df_exemplo = [None, None, None, Some 18, Some 27]"
  "chuva_acumulada (nat 4) df_exemplo = [None, None, None, None, Some 27]"
  by (simp_all add: acc_defs df_exemplo_def upt5 eval_nat_numeral)

lemma sqrt_exemplo: "2 * (sqrt (9 / 2) * sqrt (81 / 2)) = 27"
  using sqrt_prod[of "9/2" "81/2" "27/2"] by simp

lemma exemplo_corr:
  "pearson (map Nivel_m df_exemplo) [None, Some 0, Some 12, Some 6, Some 9] = Some (- 1)"
  "pearson (map Nivel_m df_exemplo) [None, None, Some 12, Some 18, Some 15] = Some 1"
  "pearson (map Nivel_m df_exemplo) [None, None, None, Some 18, Some 27] = Some (- 1)"
  "pearson (map Nivel_m df_exemplo) [None, None, None, None, Some 27] = None"
  by (simp_all add: pearson_def df_exemplo_def media_def sqrt_exemplo)

lemma exemplo_calcular:
  "calcular_correlacao_com_lag pearson df_exemplo 4 =
     Inr (Some (2, 1, [(1, - 1), (2, 1), (3, - 1)]))"
  using exemplo_acc exemplo_corr
  by (simp add: calcular_correlacao_com_lag_def upto.simps py_max_def)

lemma vazio_coeficiente: "coeficiente pearson [] k = None"
  by (simp add: acc_defs pearson_def)

subsection \<open>The accumulated rainfall\<close>

lemma observed_length: "length (observed vs) \<le> length vs"
  by (induction vs rule: observed.induct) auto

lemma observed_all: "length (observed vs) = length vs \<longleftrightarrow> None \<notin> set vs"
proof (induction vs rule: observed.induct)
  case (2 vs)
  have "length (observed vs) \<le> length vs" by (rule observed_length)
  then show ?case by auto
qed auto

text \<open>
  Row by row: the accumulated rainfall of row \<open>i\<close> for the lag \<open>k\<close> is the
  sum of the precipitation of the \<open>k\<close> rows before row \<open>i\<close>, row \<open>i\<close>
  excluded, and it is missing when there are fewer than \<open>k\<close> rows before it
  or when one of them has no precipitation. The rows are counted by position:
  their dates play no part.
\<close>

lemma chuva_acumulada_linha:
  assumes k: "0 < k" and i: "i < length df"
  shows "chuva_acumulada k df ! i =
     (let w = map Precipitacao_mm (drop (i - k) (take i df))
      in if k \<le> i \<and> None \<notin> set w then Some (sum_list (observed w)) else None)"
proof -
  let ?xs = "map Precipitacao_mm df"
  let ?w = "drop (i - k) (take i ?xs)"
  have ne: "?xs \<noteq> []" using i by auto
  have len: "length (None # butlast ?xs) = length ?xs" using ne by simp
  have tk: "take i (butlast ?xs) = take i ?xs" using i by (simp add: take_butlast)
  have weq: "map Precipitacao_mm (drop (i - k) (take i df)) = ?w"
    by (simp add: drop_map take_map)
  have nth: "chuva_acumulada k df ! i =
      (let obs = observed (janela k (None # butlast ?xs) i)
       in if k \<le> length obs then Some (sum_list obs) else None)"
    using i ne len by (simp add: chuva_acumulada_def shift1_def rolling_sum_def del: length_Cons)
  show ?thesis
  proof (cases "k \<le> i")
    case True
    then have "Suc i - k = Suc (i - k)" by simp
    then have j: "janela k (None # butlast ?xs) i = ?w"
      by (simp add: janela_def tk)
    have lw: "length ?w = k" using True i by simp
    have "k \<le> length (observed ?w) \<longleftrightarrow> None \<notin> set ?w"
      using observed_length[of ?w] observed_all[of ?w] lw by auto
    with True show ?thesis unfolding nth j weq by (simp add: Let_def)
  next
    case False
    then have "Suc i - k = 0" by simp
    then have j: "janela k (None # butlast ?xs) i = None # take i ?xs"
      by (simp add: janela_def tk)
    have "length (observed (take i ?xs)) \<le> i"
      using observed_length[of "take i ?xs"] i by simp
    with False show ?thesis unfolding nth j by (simp add: Let_def)
  qed
qed

text \<open>
  When the frame has one row for each of a run of consecutive days, the \<open>k\<close>
  rows before the row of a date are the \<open>k\<close> days before that date.
\<close>

lemma janela_dias_consecutivos:
  assumes k: "k \<le> i" and i: "i < length df"
    and consec: "\<forall>j<length df. Data (df ! j) = Data (df ! 0) + int j"
  shows "map Data (drop (i - k) (take i df)) = [Data (df ! i) - int k .. Data (df ! i) - 1]"
proof (rule nth_equalityI)
  show len: "length (map Data (drop (i - k) (take i df))) =
      length [Data (df ! i) - int k .. Data (df ! i) - 1]"
    using k i by simp
  fix j assume "j < length (map Data (drop (i - k) (take i df)))"
  then have j: "j < k" using k i by simp
  then have idx: "i - k + j < i" using k by simp
  then have "map Data (drop (i - k) (take i df)) ! j = Data (df ! (i - k + j))"
    using i j k by simp
  also have "\<dots> = Data (df ! 0) + int (i - k + j)"
    using consec idx i by simp
  also have "\<dots> = Data (df ! i) - int k + int j"
    using consec i k by simp
  also have "\<dots> = [Data (df ! i) - int k .. Data (df ! i) - 1] ! j"
    using j by (simp add: nth_upto)
  finally show "map Data (drop (i - k) (take i df)) ! j =
      [Data (df ! i) - int k .. Data (df ! i) - 1] ! j" .
qed

text \<open>
  C1 (the accumulated driver at date \<open>t\<close> is the sum over the \<open>k\<close> days
  strictly preceding \<open>t\<close>). The frame \<open>df_lacuna\<close> has rows for the days 1,
  2 and 5 only. For the lag 2 the value paired with the level of day 5 is 3,
  the rainfall of the days 1 and 2: the two rows before it, not the two days
  before it (days 3 and 4, which have no row).
\<close>

theorem chuva_acumulada_em_lacuna:
  "map Data df_lacuna = [1, 2, 5] \<and>
   map Precipitacao_mm df_lacuna = [Some 1, Some 2, Some 4] \<and>
   chuva_acumulada 2 df_lacuna = [None, None, Some 3]"
  by (simp add: acc_defs df_lacuna_def upt3 eval_nat_numeral)

subsection \<open>The claims on the result\<close>

text \<open>
  C2. When the analyser returns a dictionary, the best lag is an entry of it,
  its coefficient is the greatest of the dictionary, and every lag with that
  coefficient is at least the best lag: among the lags of greatest
  coefficient the smallest is returned.
\<close>

theorem melhor_lag_maximo:
  assumes "calcular_correlacao_com_lag corr df max_lag =
             Inr (Some (melhor_lag, melhor_corr, correlacoes))"
  shows "correlacoes \<noteq> [] \<and> (melhor_lag, melhor_corr) \<in> set correlacoes \<and>
         (\<forall>(k, c)\<in>set correlacoes. c \<le> melhor_corr \<and> (c = melhor_corr \<longrightarrow> melhor_lag \<le> k))"
  using calcular_cases[of corr df max_lag] assms
  by (auto dest: map_of_SomeD)

theorem melhor_lag_maximo_witness:
  "calcular_correlacao_com_lag pearson df_empate 3 = Inr (Some (1, 1, [(1, 1), (2, 1), (3, 1)])) \<and>
   (1, 1) \<in> set [(1::int, 1::real), (2, 1), (3, 1)] \<and> (1::int) \<le> 2 \<and> (1::int) \<le> 3"
  using melhor_lag_maximo[OF empate_calcular] empate_calcular by simp

text \<open>
  C3. The analyser returns without raising. A pair of a lag and a coefficient
  is in the dictionary exactly when the lag is between 1 and \<open>max_lag\<close> and
  the coefficient is the defined coefficient of that lag, so a lag whose
  coefficient is NaN has no entry. When no lag between 1 and \<open>max_lag\<close> has
  a defined coefficient the result is \<open>(None, None, None)\<close>.
\<close>

theorem so_coeficientes_definidos:
  "(\<exists>r. calcular_correlacao_com_lag corr df max_lag = Inr r \<and>
      (\<forall>ml mc cs. r = Some (ml, mc, cs) \<longrightarrow>
         (\<forall>k c. (k, c) \<in> set cs \<longleftrightarrow>
                 1 \<le> k \<and> k \<le> max_lag \<and> coeficiente corr df k = Some c))) \<and>
   ((\<forall>k. 1 \<le> k \<and> k \<le> max_lag \<longrightarrow> coeficiente corr df k = None) \<longrightarrow>
      calcular_correlacao_com_lag corr df max_lag = Inr None)"
proof -
  have mem: "\<And>k c. (k, c) \<in> set (entradas corr df [1..max_lag]) \<longleftrightarrow>
      1 \<le> k \<and> k \<le> max_lag \<and> coeficiente corr df k = Some c"
    by (simp add: entradas_mem)
  have a: "\<exists>r. calcular_correlacao_com_lag corr df max_lag = Inr r \<and>
      (\<forall>ml mc cs. r = Some (ml, mc, cs) \<longrightarrow>
         (\<forall>k c. (k, c) \<in> set cs \<longleftrightarrow>
                 1 \<le> k \<and> k \<le> max_lag \<and> coeficiente corr df k = Some c))"
    using calcular_cases[of corr df max_lag] mem by auto
  have b: "(\<forall>k. 1 \<le> k \<and> k \<le> max_lag \<longrightarrow> coeficiente corr df k = None) \<longrightarrow>
      calcular_correlacao_com_lag corr df max_lag = Inr None"
  proof
    assume h: "\<forall>k. 1 \<le> k \<and> k \<le> max_lag \<longrightarrow> coeficiente corr df k = None"
    have "entradas corr df [1..max_lag] = []"
    proof (cases "entradas corr df [1..max_lag]")
      case Nil
      then show ?thesis .
    next
      case (Cons p ps)
      then have "(fst p, snd p) \<in> set (entradas corr df [1..max_lag])" by simp
      then have "1 \<le> fst p \<and> fst p \<le> max_lag \<and> coeficiente corr df (fst p) = Some (snd p)"
        by (simp only: mem)
      with h show ?thesis by fastforce
    qed
    with calcular_cases[of corr df max_lag]
    show "calcular_correlacao_com_lag corr df max_lag = Inr None"
      by auto
  qed
  from a b show ?thesis by blast
qed

theorem so_coeficientes_definidos_witness:
  "calcular_correlacao_com_lag pearson [] 3 = Inr None \<and>
   calcular_correlacao_com_lag pearson df_exemplo 4 =
     Inr (Some (2, 1, [(1, - 1), (2, 1), (3, - 1)])) \<and>
   coeficiente pearson df_exemplo 3 = Some (- 1) \<and>
   coeficiente pearson df_exemplo 4 = None"
proof -
  have h: "\<forall>k. 1 \<le> k \<and> k \<le> 3 \<longrightarrow> coeficiente pearson [] k = None"
    using vazio_coeficiente by blast
  from so_coeficientes_definidos[of pearson "[]" 3] h
  have vazio: "calcular_correlacao_com_lag pearson [] 3 = Inr None" by blast
  from so_coeficientes_definidos[of pearson df_exemplo 4] exemplo_calcular
  have ent: "\<forall>k c. (k, c) \<in> set [(1, - 1), (2, 1), (3, - 1)] \<longleftrightarrow>
      1 \<le> k \<and> k \<le> 4 \<and> coeficiente pearson df_exemplo k = Some c"
    by simp
  from ent have "(3, - 1) \<in> set [(1::int, - 1::real), (2, 1), (3, - 1)] \<longleftrightarrow>
      (1::int) \<le> 3 \<and> (3::int) \<le> 4 \<and> coeficiente pearson df_exemplo 3 = Some (- 1)"
    by blast
  then have c3: "coeficiente pearson df_exemplo 3 = Some (- 1)" by simp
  have c4: "coeficiente pearson df_exemplo 4 = None"
  proof (cases "coeficiente pearson df_exemplo 4")
    case None
    then show ?thesis .
  next
    case (Some c)
    from ent have "(4, c) \<in> set [(1::int, - 1::real), (2, 1), (3, - 1)] \<longleftrightarrow>
        (1::int) \<le> 4 \<and> (4::int) \<le> 4 \<and> coeficiente pearson df_exemplo 4 = Some c"
      by blast
    with Some show ?thesis by simp
  qed
  from vazio exemplo_calcular c3 c4 show ?thesis by simp
qed

text \<open>
  C9. Every lag of the returned dictionary is at least 1 and at most
  \<open>max_lag\<close>.
\<close>

theorem lags_dentro_do_limite:
  assumes "calcular_correlacao_com_lag corr df max_lag =
             Inr (Some (melhor_lag, melhor_corr, correlacoes))"
  shows "\<forall>(k, c)\<in>set correlacoes. 1 \<le> k \<and> k \<le> max_lag"
  using calcular_cases[of corr df max_lag] assms entradas_keys[of corr df "[1..max_lag]"]
  by auto

theorem lags_dentro_do_limite_witness:
  "calcular_correlacao_com_lag pearson df_exemplo 4 =
     Inr (Some (2, 1, [(1, - 1), (2, 1), (3, - 1)])) \<and> (1::int) \<le> 1 \<and> (3::int) \<le> 4"
  using lags_dentro_do_limite[OF exemplo_calcular] exemplo_calcular by simp

section \<open>The parsers\<close>



lemma to_datetime_valores:
  "to_datetime strptime cs = Inr ts \<Longrightarrow> map Some ts = map (instante_da_celula strptime) cs"
  by (induction cs arbitrary: ts) (auto split: option.splits sum.splits)

lemma to_datetime_completo:
  "map Some ts = map (instante_da_celula strptime) cs \<Longrightarrow> to_datetime strptime cs = Inr ts"
proof (induction cs arbitrary: ts)
  case Nil
  then show ?case by simp
next
  case (Cons c cs)
  from Cons.prems obtain t us where ts: "ts = t # us"
    by (cases ts) auto
  with Cons.prems have c: "instante_da_celula strptime c = Some t"
    and us: "map Some us = map (instante_da_celula strptime) cs" by simp_all
  from Cons.IH[OF us] have "to_datetime strptime cs = Inr us" .
  with c ts show ?case by simp
qed

lemma to_datetime_sucesso:
  "to_datetime strptime cs = Inr ts \<longleftrightarrow> map Some ts = map (instante_da_celula strptime) cs"
  using to_datetime_valores[of strptime cs ts] to_datetime_completo[of ts strptime cs]
  by blast



lemma limpar_exemplos:
  "limpar_medicao ''1,20 m'' = ''1.20''"
  "limpar_medicao ''1,35 m'' = ''1.35''"
  "limpar_medicao ''0,4 m'' = ''0.4''"
  "limpar_medicao ''n/d'' = ''n/d''"
  by (simp_all add: limpar_medicao_def str_replace_def)

lemma df_rio_exemplo: "df_rio to_float_tab strptime_tab linhas_rio = Inr quadro_rio"
  by (simp add: df_rio_def linhas_rio_def quadro_rio_def limpar_exemplos to_numeric_coerce_def
      to_float_tab_def strptime_tab_def instante_da_celula_def)





text \<open>
  C6 (a value text that fails numeric coercion becomes absent, never zero), as
  stated, fails on line 94 of process\_data.py: the rainfall text \<open>n/d\<close> fails
  the coercion and the resulting cell is the number 0.
\<close>

theorem coercao_chuva_counterexample:
  "to_float_tab ''n/d'' = None \<and> precipitacao_mm to_float_tab (Some ''n/d'') = Some 0"
  by (simp add: precipitacao_mm_def to_numeric_coerce_def fillna0_def to_float_tab_def)

text \<open>
  C6 as amended. A river-level text that fails the coercion (after the unit
  and the decimal comma are rewritten) gives an absent cell in the parsed
  frame of 1\_processamento\_dados.py, and a level text that fails gives an
  absent cell in process\_data.py; a rainfall text that fails the coercion in
  process\_data.py gives the number 0, by the \<open>fillna(0)\<close> of line 94.
\<close>

theorem coercao_falha:
  "(\<forall>obs i s. df_rio to_float strptime linhas = Inr obs \<and> i < length linhas \<and>
       Medicao_str (linhas ! i) = Some s \<and> to_float (limpar_medicao s) = None \<longrightarrow>
       snd (obs ! i) = None) \<and>
   (to_float txt = None \<longrightarrow>
       nivel_cm to_float (Some txt) = None \<and> precipitacao_mm to_float (Some txt) = Some 0)"
proof -
  have a: "\<forall>obs i s. df_rio to_float strptime linhas = Inr obs \<and> i < length linhas \<and>
       Medicao_str (linhas ! i) = Some s \<and> to_float (limpar_medicao s) = None \<longrightarrow>
       snd (obs ! i) = None"
  proof (intro allI impI)
    fix obs i s
    assume h: "df_rio to_float strptime linhas = Inr obs \<and> i < length linhas \<and>
       Medicao_str (linhas ! i) = Some s \<and> to_float (limpar_medicao s) = None"
    then obtain ts where ts: "to_datetime strptime (map Timestamp linhas) = Inr ts"
      and obs: "obs = zip ts (map (\<lambda>r. to_numeric_coerce to_float
                  (map_option limpar_medicao (Medicao_str r))) linhas)"
      by (auto simp: df_rio_def split: sum.splits)
    from ts have "map Some ts = map (instante_da_celula strptime) (map Timestamp linhas)"
      by (simp only: to_datetime_sucesso)
    then have "length ts = length linhas" by (metis length_map)
    with h show "snd (obs ! i) = None"
      unfolding obs by (simp add: to_numeric_coerce_def)
  qed
  have b: "to_float txt = None \<longrightarrow>
       nivel_cm to_float (Some txt) = None \<and> precipitacao_mm to_float (Some txt) = Some 0"
    by (simp add: nivel_cm_def precipitacao_mm_def to_numeric_coerce_def fillna0_def)
  from a b show ?thesis by blast
qed

theorem coercao_falha_witness:
  "df_rio to_float_tab strptime_tab linhas_rio = Inr quadro_rio \<and>
   Medicao_str (linhas_rio ! 1) = Some ''n/d'' \<and>
   to_float_tab (limpar_medicao ''n/d'') = None \<and>
   snd (quadro_rio ! 1) = None \<and>
   nivel_cm to_float_tab (Some ''n/d'') = None \<and>
   precipitacao_mm to_float_tab (Some ''n/d'') = Some 0"
proof -
  have m: "Medicao_str (linhas_rio ! 1) = Some ''n/d''"
    by (simp add: linhas_rio_def)
  have f: "to_float_tab (limpar_medicao ''n/d'') = None"
    by (simp add: limpar_exemplos to_float_tab_def)
  have f': "to_float_tab ''n/d'' = None"
    by (simp add: to_float_tab_def)
  have l: "1 < length linhas_rio" by (simp add: linhas_rio_def)
  from coercao_falha[of to_float_tab strptime_tab linhas_rio "''n/d''"] df_rio_exemplo l m f
  have a: "snd (quadro_rio ! 1) = None" by blast
  from coercao_falha[of to_float_tab strptime_tab linhas_rio "''n/d''"] f'
  have b: "nivel_cm to_float_tab (Some ''n/d'') = None \<and>
           precipitacao_mm to_float_tab (Some ''n/d'') = Some 0" by blast
  from df_rio_exemplo m f a b show ?thesis by blast
qed

section \<open>Daily aggregation\<close>

lemma resample_D_mem:
  "(dia, v) \<in> set (resample_D agg obs) \<longleftrightarrow>
     (\<exists>(t1, v1)\<in>set obs. day_of t1 \<le> dia) \<and> (\<exists>(t2, v2)\<in>set obs. dia \<le> day_of t2) \<and>
     v = agg (do_dia obs dia)"
proof (cases obs)
  case Nil
  then show ?thesis by (simp add: resample_D_def)
next
  case (Cons o1 rest)
  let ?D = "map (\<lambda>(t, v). day_of t) obs"
  obtain d ds where D: "?D = d # ds" using Cons by (cases o1) auto
  have lo: "fold min ds d = Min (set ?D)" unfolding D by (rule Min.set_eq_fold[symmetric])
  have hi: "fold max ds d = Max (set ?D)" unfolding D by (rule Max.set_eq_fold[symmetric])
  have ne: "set ?D \<noteq> {}" "finite (set ?D)" using D by auto
  have a: "Min (set ?D) \<le> dia \<longleftrightarrow> (\<exists>(t1, v1)\<in>set obs. day_of t1 \<le> dia)"
    using ne by (subst Min_le_iff) force+
  have b: "dia \<le> Max (set ?D) \<longleftrightarrow> (\<exists>(t2, v2)\<in>set obs. dia \<le> day_of t2)"
    using ne by (subst Max_ge_iff) force+
  have "(dia, v) \<in> set (resample_D agg obs) \<longleftrightarrow>
      Min (set ?D) \<le> dia \<and> dia \<le> Max (set ?D) \<and> v = agg (do_dia obs dia)"
    unfolding resample_D_def D list.case lo[unfolded D] hi[unfolded D] by auto
  with a b show ?thesis by simp
qed

lemma resample_D_distinct: "distinct (map fst (resample_D agg obs))"
proof (cases "map (\<lambda>(t, v). day_of t) obs")
  case Nil
  then show ?thesis by (simp add: resample_D_def)
next
  case (Cons d ds)
  then show ?thesis by (simp add: resample_D_def o_def)
qed

lemma do_dia_vazio: "do_dia obs dia = [] \<longleftrightarrow> (\<forall>(t, v)\<in>set obs. day_of t \<noteq> dia)"
  by (auto simp: do_dia_def filter_empty_conv)

lemma observed_vazio: "observed vs \<noteq> [] \<Longrightarrow> vs \<noteq> []"
  by auto

lemma upto_dias: "[19844..19846] = [19844, 19845, 19846]"
  by (simp add: upto.simps)

lemma clima_diario_exemplo:
  "df_clima_diario obs_clima = [(19844, Some 8), (19845, Some 0), (19846, Some 2)]"
  by (simp add: df_clima_diario_def resample_D_def obs_clima_def day_of_def upto_dias
      do_dia_def soma_def)

lemma rio_diario_exemplo:
  "df_rio_diario obs_rio = [(19844, Some (51 / 40)), (19846, Some (4 / 10))]"
  by (simp add: df_rio_diario_def dropna_def resample_D_def obs_rio_def day_of_def upto_dias
      do_dia_def mean_def del: not_None_eq)

text \<open>
  C4 (under the SUM policy a day with no contributing observation is absent
  from the output), as stated, fails: \<open>obs_clima\<close> has no observation on day
  19845 (2024-05-02), and the daily sum has a row for that day, with value 0.
\<close>

theorem soma_diaria_counterexample:
  "do_dia obs_clima 19845 = [] \<and>
   df_clima_diario obs_clima = [(19844, Some 8), (19845, Some 0), (19846, Some 2)]"
  by (simp add: clima_diario_exemplo) (simp add: do_dia_def obs_clima_def day_of_def)

text \<open>
  C4 as amended. The daily sum has a row exactly for the calendar days from
  the day of the earliest observation to the day of the latest one, and the
  value of a day is the sum of its observed values; so a day in that range
  with no contributing observation is present with the value 0, and only the
  days before the first or after the last observation are absent. The daily
  precipitation of process\_data.py is the same aggregation.
\<close>

theorem soma_diaria_dias:
  "((dia, v) \<in> set (df_clima_diario obs) \<longleftrightarrow>
      (\<exists>(t1, v1)\<in>set obs. day_of t1 \<le> dia) \<and> (\<exists>(t2, v2)\<in>set obs. dia \<le> day_of t2) \<and>
      v = Some (sum_list (valores_do_dia obs dia))) \<and>
   ((\<exists>(t1, v1)\<in>set obs. day_of t1 \<le> dia) \<and> (\<exists>(t2, v2)\<in>set obs. dia \<le> day_of t2) \<and>
      (\<forall>(t, v)\<in>set obs. day_of t \<noteq> dia) \<longrightarrow> (dia, Some 0) \<in> set (df_clima_diario obs)) \<and>
   df_diario_precipitacao obs = df_clima_diario obs"
proof -
  have a: "\<And>w. (dia, w) \<in> set (df_clima_diario obs) \<longleftrightarrow>
      (\<exists>(t1, v1)\<in>set obs. day_of t1 \<le> dia) \<and> (\<exists>(t2, v2)\<in>set obs. dia \<le> day_of t2) \<and>
      w = Some (sum_list (valores_do_dia obs dia))"
    by (simp add: df_clima_diario_def resample_D_mem soma_def valores_do_dia_def)
  have b: "(\<exists>(t1, v1)\<in>set obs. day_of t1 \<le> dia) \<and> (\<exists>(t2, v2)\<in>set obs. dia \<le> day_of t2) \<and>
      (\<forall>(t, v)\<in>set obs. day_of t \<noteq> dia) \<longrightarrow> (dia, Some 0) \<in> set (df_clima_diario obs)"
  proof
    assume h: "(\<exists>(t1, v1)\<in>set obs. day_of t1 \<le> dia) \<and>
      (\<exists>(t2, v2)\<in>set obs. dia \<le> day_of t2) \<and> (\<forall>(t, v)\<in>set obs. day_of t \<noteq> dia)"
    then have "do_dia obs dia = []" by (simp add: do_dia_vazio)
    then have "sum_list (valores_do_dia obs dia) = 0" by (simp add: valores_do_dia_def)
    with h a[of "Some 0"] show "(dia, Some 0) \<in> set (df_clima_diario obs)" by simp
  qed
  have c: "df_diario_precipitacao obs = df_clima_diario obs"
    by (simp add: df_diario_precipitacao_def df_clima_diario_def)
  from a[of v] b c show ?thesis by blast
qed

theorem soma_diaria_dias_witness:
  "do_dia obs_clima 19845 = [] \<and> (19845, Some 0) \<in> set (df_clima_diario obs_clima) \<and>
   (19843, Some 0) \<notin> set (df_clima_diario obs_clima)"
proof -
  have lo: "\<exists>(t1, v1)\<in>set obs_clima. day_of t1 \<le> 19845"
    by (simp add: obs_clima_def day_of_def)
  have hi: "\<exists>(t2, v2)\<in>set obs_clima. 19845 \<le> day_of t2"
    by (simp add: obs_clima_def day_of_def)
  have none: "\<forall>(t, v)\<in>set obs_clima. day_of t \<noteq> 19845"
    by (simp add: obs_clima_def day_of_def)
  from soma_diaria_dias[of 19845 "Some 0" obs_clima] lo hi none
  have a: "(19845, Some 0) \<in> set (df_clima_diario obs_clima)" by blast
  have "\<not> (\<exists>(t1, v1)\<in>set obs_clima. day_of t1 \<le> 19843)"
    by (simp add: obs_clima_def day_of_def)
  with soma_diaria_dias[of 19843 "Some 0" obs_clima]
  have b: "(19843, Some 0) \<notin> set (df_clima_diario obs_clima)" by blast
  from none have "do_dia obs_clima 19845 = []" by (simp add: do_dia_vazio)
  with a b show ?thesis by simp
qed

text \<open>
  C8. The daily mean of the river level has a row for a calendar day exactly
  when that day has at least one observed (non-absent) value, and the value of
  the row is the sum of the day's observed values divided by their number:
  the absent values are left out of the mean, and a day with no observed
  value has no row at all, neither with zero nor with any other value. No day
  has two rows.
\<close>

theorem media_diaria:
  "((dia, v) \<in> set (df_rio_diario obs) \<longleftrightarrow>
      valores_do_dia obs dia \<noteq> [] \<and>
      v = Some (sum_list (valores_do_dia obs dia) / real (length (valores_do_dia obs dia)))) \<and>
   distinct (map fst (df_rio_diario obs))"
proof -
  let ?xs = "valores_do_dia obs dia"
  have rng: "?xs \<noteq> [] \<Longrightarrow>
      (\<exists>(t1, v1)\<in>set obs. day_of t1 \<le> dia) \<and> (\<exists>(t2, v2)\<in>set obs. dia \<le> day_of t2)"
  proof -
    assume "?xs \<noteq> []"
    then have "do_dia obs dia \<noteq> []" unfolding valores_do_dia_def by (rule observed_vazio)
    then obtain t w where "(t, w) \<in> set obs" "day_of t = dia"
      by (auto simp: do_dia_vazio)
    then show ?thesis by force
  qed
  have "(dia, v) \<in> set (df_rio_diario obs) \<longleftrightarrow>
      (\<exists>(t1, v1)\<in>set obs. day_of t1 \<le> dia) \<and> (\<exists>(t2, v2)\<in>set obs. dia \<le> day_of t2) \<and>
      v = mean (do_dia obs dia) \<and> v \<noteq> None"
    by (auto simp: df_rio_diario_def dropna_def resample_D_mem)
  also have "\<dots> \<longleftrightarrow> ?xs \<noteq> [] \<and> v = Some (sum_list ?xs / real (length ?xs))"
    using rng by (auto simp: mean_def valores_do_dia_def Let_def)
  finally have a: "(dia, v) \<in> set (df_rio_diario obs) \<longleftrightarrow>
      ?xs \<noteq> [] \<and> v = Some (sum_list ?xs / real (length ?xs))" .
  have "distinct (map fst (filter (\<lambda>(d, v). v \<noteq> None) (resample_D mean obs)))"
    using resample_D_distinct[of mean obs] by (rule distinct_map_filter)
  then have b: "distinct (map fst (df_rio_diario obs))"
    by (simp add: df_rio_diario_def dropna_def)
  from a b show ?thesis by blast
qed

theorem media_diaria_witness:
  "valores_do_dia obs_rio 19844 = [12 / 10, 135 / 100] \<and>
   (19844, Some (51 / 40)) \<in> set (df_rio_diario obs_rio) \<and>
   valores_do_dia obs_rio 19845 = [] \<and>
   (19845, Some 0) \<notin> set (df_rio_diario obs_rio)"
proof -
  have v1: "valores_do_dia obs_rio 19844 = [12 / 10, 135 / 100]"
    by (simp add: valores_do_dia_def do_dia_def obs_rio_def day_of_def)
  have v2: "valores_do_dia obs_rio 19845 = []"
    by (simp add: valores_do_dia_def do_dia_def obs_rio_def day_of_def)
  from media_diaria[of 19844 "Some (51 / 40)" obs_rio] v1
  have a: "(19844, Some (51 / 40)) \<in> set (df_rio_diario obs_rio)" by simp
  from media_diaria[of 19845 "Some 0" obs_rio] v2
  have b: "(19845, Some 0) \<notin> set (df_rio_diario obs_rio)" by simp
  from v1 v2 a b show ?thesis by blast
qed

section \<open>The join\<close>

lemma join_linha:
  "r \<in> set (case filter (\<lambda>(d', p). d' = d) dir of
              [] \<Rightarrow> [\<lparr>Data = d, Nivel_m = n, Precipitacao_mm = None\<rparr>]
            | ms \<Rightarrow> map (\<lambda>(d', p). \<lparr>Data = d, Nivel_m = n, Precipitacao_mm = p\<rparr>) ms) \<longleftrightarrow>
     (d \<notin> fst ` set dir \<and> r = \<lparr>Data = d, Nivel_m = n, Precipitacao_mm = None\<rparr>) \<or>
     (\<exists>p. (d, p) \<in> set dir \<and> r = \<lparr>Data = d, Nivel_m = n, Precipitacao_mm = p\<rparr>)"
proof (cases "filter (\<lambda>(d', p). d' = d) dir")
  case Nil
  then have "d \<notin> fst ` set dir" by (auto simp: filter_empty_conv)
  with Nil show ?thesis by force
next
  case (Cons m ms')
  let ?ms = "filter (\<lambda>(d', p). d' = d) dir"
  from Cons have "m \<in> set ?ms" by simp
  then have din: "d \<in> fst ` set dir" by force
  have "r \<in> set (map (\<lambda>(d', p). \<lparr>Data = d, Nivel_m = n, Precipitacao_mm = p\<rparr>) ?ms) \<longleftrightarrow>
      (\<exists>p. (d, p) \<in> set dir \<and> r = \<lparr>Data = d, Nivel_m = n, Precipitacao_mm = p\<rparr>)"
    by force
  with din show ?thesis unfolding Cons[symmetric] using Cons by (simp del: set_map)
qed

lemma join_mem:
  "r \<in> set (join esq dir) \<longleftrightarrow>
     (\<exists>x\<in>set esq.
        (fst x \<notin> fst ` set dir \<and>
         r = \<lparr>Data = fst x, Nivel_m = snd x, Precipitacao_mm = None\<rparr>) \<or>
        (\<exists>p. (fst x, p) \<in> set dir \<and>
         r = \<lparr>Data = fst x, Nivel_m = snd x, Precipitacao_mm = p\<rparr>))"
proof (induction esq)
  case Nil
  show ?case by (simp add: join_def)
next
  case (Cons x xs)
  obtain d n where x: "x = (d, n)" by (cases x)
  have "join (x # xs) dir =
      (case filter (\<lambda>(d', p). d' = d) dir of
              [] \<Rightarrow> [\<lparr>Data = d, Nivel_m = n, Precipitacao_mm = None\<rparr>]
            | ms \<Rightarrow> map (\<lambda>(d', p). \<lparr>Data = d, Nivel_m = n, Precipitacao_mm = p\<rparr>) ms)
      @ join xs dir"
    by (simp add: join_def x)
  then have "r \<in> set (join (x # xs) dir) \<longleftrightarrow>
      r \<in> set (case filter (\<lambda>(d', p). d' = d) dir of
              [] \<Rightarrow> [\<lparr>Data = d, Nivel_m = n, Precipitacao_mm = None\<rparr>]
            | ms \<Rightarrow> map (\<lambda>(d', p). \<lparr>Data = d, Nivel_m = n, Precipitacao_mm = p\<rparr>) ms)
      \<or> r \<in> set (join xs dir)"
    by (simp only: set_append Un_iff)
  then show ?case unfolding join_linha Cons.IH by (simp add: x)
qed

lemma filter_chave:
  "distinct ds \<Longrightarrow> d \<in> set ds \<Longrightarrow>
   filter (\<lambda>(d', p). d' = d) (map (\<lambda>x. (x, g x)) ds) = [(d, g d)]"
proof (induction ds)
  case Nil
  then show ?case by simp
next
  case (Cons x xs)
  show ?case
  proof (cases "x = d")
    case True
    with Cons.prems have "d \<notin> set xs" by simp
    then have "filter (\<lambda>(d', p). d' = d) (map (\<lambda>x. (x, g x)) xs) = []"
      by (auto simp: filter_empty_conv)
    with True show ?thesis by simp
  next
    case False
    with Cons show ?thesis by simp
  qed
qed

lemma join_cobertura:
  "distinct ds \<Longrightarrow> set es \<subseteq> set ds \<Longrightarrow>
   join (map (\<lambda>d. (d, f d)) es) (map (\<lambda>d. (d, g d)) ds) =
     map (\<lambda>d. \<lparr>Data = d, Nivel_m = f d, Precipitacao_mm = g d\<rparr>) es"
proof (induction es)
  case Nil
  then show ?case by (simp add: join_def)
next
  case (Cons e es)
  then have ih: "join (map (\<lambda>d. (d, f d)) es) (map (\<lambda>d. (d, g d)) ds) =
     map (\<lambda>d. \<lparr>Data = d, Nivel_m = f d, Precipitacao_mm = g d\<rparr>) es" by simp
  from Cons.prems have "e \<in> set ds" by simp
  with Cons.prems(1) have fc: "filter (\<lambda>(d', p). d' = e) (map (\<lambda>x. (x, g x)) ds) = [(e, g e)]"
    by (rule filter_chave)
  show ?case using ih fc by (simp add: join_def)
qed

lemma df_final_exemplo:
  "df_final False rio_diario_ex clima_diario_ex =
     [\<lparr>Data = 1, Nivel_m = Some 2, Precipitacao_mm = Some 4\<rparr>,
      \<lparr>Data = 3, Nivel_m = Some (5 / 2), Precipitacao_mm = Some 0\<rparr>]"
  "df_final True rio_diario_ex clima_diario_ex =
     [\<lparr>Data = 1, Nivel_m = Some 2, Precipitacao_mm = Some 4\<rparr>]"
  by (simp_all add: df_final_def fillna0_encadeado_def join_def rio_diario_ex_def
      clima_diario_ex_def fillna0_def del: not_None_eq)

text \<open>
  C7. A rainfall series with a value for each of the days 1 to 100 joined
  with a level series with a value for each of the days 50 to 100 gives
  exactly one row for each of the days 50 to 100, in order, with the level and
  the rainfall of that day, both defined, and no row for any of the days 1 to
  49. This holds with and without Copy-on-Write: no precipitation is missing
  after the join, so the fill of line 118 has nothing to fill.
\<close>

theorem exemplo_dias_50_a_100:
  "df_final copy_on_write (map (\<lambda>d. (d, Some (nivel d))) [50..100])
                          (map (\<lambda>d. (d, Some (chuva d))) [1..100]) =
     map (\<lambda>d. \<lparr>Data = d, Nivel_m = Some (nivel d), Precipitacao_mm = Some (chuva d)\<rparr>) [50..100]"
proof -
  have sub: "set [50..100] \<subseteq> set [1..100::int]" by auto
  have j: "join (map (\<lambda>d. (d, Some (nivel d))) [50..100]) (map (\<lambda>d. (d, Some (chuva d))) [1..100]) =
      map (\<lambda>d. \<lparr>Data = d, Nivel_m = Some (nivel d), Precipitacao_mm = Some (chuva d)\<rparr>) [50..100]"
    using join_cobertura[of "[1..100]" "[50..100]" "\<lambda>d. Some (nivel d)" "\<lambda>d. Some (chuva d)"] sub
    by simp
  show ?thesis unfolding df_final_def j
    by (simp add: fillna0_encadeado_def filter_map o_def fillna0_def)
qed

theorem exemplo_dias_50_a_100_witness:
  "map Data (df_final True (map (\<lambda>d. (d, Some (real_of_int d / 100))) [50..100])
                           (map (\<lambda>d. (d, Some 0)) [1..100])) = [50..100] \<and>
   map Data (df_final False (map (\<lambda>d. (d, Some (real_of_int d / 100))) [50..100])
                            (map (\<lambda>d. (d, Some 0)) [1..100])) = [50..100]"
  using exemplo_dias_50_a_100[of True "\<lambda>d. real_of_int d / 100" "\<lambda>d. 0"]
    exemplo_dias_50_a_100[of False "\<lambda>d. real_of_int d / 100" "\<lambda>d. 0"]
  by (simp add: o_def)

text \<open>
  In both modes every row of the consolidated frame has a defined river level
  and a defined precipitation, and comes from a row of the river series with
  that date and level.
\<close>

lemma df_final_linhas_definidas:
  "\<forall>r\<in>set (df_final copy_on_write rio_diario clima_diario).
      Nivel_m r \<noteq> None \<and> Precipitacao_mm r \<noteq> None \<and> (Data r, Nivel_m r) \<in> set rio_diario"
proof
  fix r assume "r \<in> set (df_final copy_on_write rio_diario clima_diario)"
  then obtain r0 where r0: "r0 \<in> set (join rio_diario clima_diario)"
    and r: "Data r = Data r0 \<and> Nivel_m r = Nivel_m r0"
    and def: "Nivel_m r \<noteq> None \<and> Precipitacao_mm r \<noteq> None"
    by (cases copy_on_write) (auto simp: df_final_def fillna0_encadeado_def)
  from r0 have "(Data r0, Nivel_m r0) \<in> set rio_diario"
    by (auto simp: join_mem)
  with r def show "Nivel_m r \<noteq> None \<and> Precipitacao_mm r \<noteq> None \<and>
      (Data r, Nivel_m r) \<in> set rio_diario" by simp
qed

text \<open>
  Without Copy-on-Write a date of the river series with a defined level and
  no row in the rainfall series has a row with precipitation 0; with
  Copy-on-Write that date has no row at all.
\<close>

lemma df_final_preenche:
  assumes "(d, Some n) \<in> set rio_diario" and "d \<notin> fst ` set clima_diario"
  shows "\<lparr>Data = d, Nivel_m = Some n, Precipitacao_mm = Some 0\<rparr>
           \<in> set (df_final False rio_diario clima_diario)"
proof -
  let ?r0 = "\<lparr>Data = d, Nivel_m = Some n, Precipitacao_mm = None\<rparr>"
  from assms have "?r0 \<in> set (join rio_diario clima_diario)"
    unfolding join_mem by force
  then have "\<exists>x\<in>set (join rio_diario clima_diario).
      \<lparr>Data = d, Nivel_m = Some n, Precipitacao_mm = Some 0\<rparr> =
        x\<lparr>Precipitacao_mm := fillna0 (Precipitacao_mm x)\<rparr>"
    by (rule rev_bexI) (simp add: fillna0_def)
  then show ?thesis
    by (simp add: df_final_def fillna0_encadeado_def image_iff)
qed

lemma df_final_descarta:
  assumes "d \<notin> fst ` set clima_diario"
  shows "\<forall>r\<in>set (df_final True rio_diario clima_diario). Data r \<noteq> d"
proof
  fix r assume "r \<in> set (df_final True rio_diario clima_diario)"
  then have j: "r \<in> set (join rio_diario clima_diario)" and p: "Precipitacao_mm r \<noteq> None"
    by (simp_all add: df_final_def fillna0_encadeado_def)
  from j obtain x where "x \<in> set rio_diario"
    and c: "(fst x \<notin> fst ` set clima_diario \<and>
         r = \<lparr>Data = fst x, Nivel_m = snd x, Precipitacao_mm = None\<rparr>) \<or>
        (\<exists>q. (fst x, q) \<in> set clima_diario \<and>
         r = \<lparr>Data = fst x, Nivel_m = snd x, Precipitacao_mm = q\<rparr>)"
    unfolding join_mem by blast
  from c p obtain q where "(fst x, q) \<in> set clima_diario" and "Data r = fst x"
    by auto
  then have "Data r \<in> fst ` set clima_diario"
    by (metis fst_conv image_eqI)
  with assms show "Data r \<noteq> d" by blast
qed

text \<open>
  C10 (every row of the consolidated frame has both fields defined, and a
  date of the river series that is missing from the rainfall series receives
  precipitation 0). In \<open>rio_diario_ex\<close> day 3 has the level 2.5 and
  \<open>clima_diario_ex\<close> has no row for day 3. With Copy-on-Write the fill of
  line 118 does not reach the frame and line 121 drops day 3, so the day does
  not receive precipitation 0: it is absent from the output. Without
  Copy-on-Write the same input gives day 3 with precipitation 0.
\<close>

theorem df_final_dia_sem_chuva:
  "(3, Some (5 / 2)) \<in> set rio_diario_ex \<and> 3 \<notin> fst ` set clima_diario_ex \<and>
   df_final True rio_diario_ex clima_diario_ex =
     [\<lparr>Data = 1, Nivel_m = Some 2, Precipitacao_mm = Some 4\<rparr>] \<and>
   df_final False rio_diario_ex clima_diario_ex =
     [\<lparr>Data = 1, Nivel_m = Some 2, Precipitacao_mm = Some 4\<rparr>,
      \<lparr>Data = 3, Nivel_m = Some (5 / 2), Precipitacao_mm = Some 0\<rparr>]"
  by (simp add: df_final_exemplo) (simp add: rio_diario_ex_def clima_diario_ex_def)

end
